theory Spec2Isabelle
  imports Main "HOL-Library.Word" "HOL-Library.Multiset" "HOL-Library.AList"
    "HOL-Library.List_Lexorder" "HOL-Library.Char_ord"
begin

unbundle bit_operations_syntax

chapter \<open>The model\<close>

section \<open>Bytes and readers\<close>

text \<open>
  A Go \<^verbatim>\<open>[]byte\<close> is a list of 8-bit words. An \<^verbatim>\<open>io.ReaderAt\<close> over a file or a byte
  buffer is modelled by the bytes it holds. \<open>ReadAt r len off\<close> is
  \<^verbatim>\<open>r.ReadAt(buf, off)\<close> for a fresh zeroed \<^verbatim>\<open>buf\<close> of \<open>len\<close> bytes: it returns the buffer
  after the call, the count \<^verbatim>\<open>n\<close> of bytes read and the error, which is \<^verbatim>\<open>io.EOF\<close>
  exactly when fewer than \<open>len\<close> bytes were available at \<open>off\<close>, and an offset error
  for a negative offset. \<open>HasPrefix\<close> is \<^verbatim>\<open>bytes.HasPrefix\<close> and \<^verbatim>\<open>strings.HasPrefix\<close>.
\<close>

type_synonym byte = "8 word"

datatype io_error = EOF | NegativeOffset

definition ReadAt :: "byte list \<Rightarrow> nat \<Rightarrow> int \<Rightarrow> byte list \<times> nat \<times> io_error option" where
  "ReadAt r len off =
     (if off < 0 then (replicate len 0, 0, Some NegativeOffset)
      else let avail = drop (nat off) r;
               n = min len (length avail)
           in (take n avail @ replicate (len - n) 0, n, if n < len then Some EOF else None))"

definition HasPrefix :: "'a list \<Rightarrow> 'a list \<Rightarrow> bool" where
  "HasPrefix s p = (length p \<le> length s \<and> take (length p) s = p)"


section \<open>Relationships of an SBOM (syft/artifact/relationship.go, sbom.go)\<close>

text \<open>
  \<^verbatim>\<open>type ID string\<close> and \<^verbatim>\<open>type RelationshipType string\<close> are strings. The endpoints
  of a relationship are values of the interface \<^verbatim>\<open>Identifiable\<close>, whose only method is
  \<^verbatim>\<open>ID()\<close>: an endpoint is modelled by the ID it reports, and a nil interface by
  \<open>None\<close>. The field \<^verbatim>\<open>Data interface{}\<close> is kept as a type parameter.
\<close>

type_synonym ID = string
type_synonym RelationshipType = string

definition OwnershipByFileOverlapRelationship :: RelationshipType where
  "OwnershipByFileOverlapRelationship = ''ownership-by-file-overlap''"

definition EvidentByRelationship :: RelationshipType where
  "EvidentByRelationship = ''evident-by''"

definition ContainsRelationship :: RelationshipType where
  "ContainsRelationship = ''contains''"

definition DependencyOfRelationship :: RelationshipType where
  "DependencyOfRelationship = ''dependency-of''"

definition DescribedByRelationship :: RelationshipType where
  "DescribedByRelationship = ''described-by''"

definition AllRelationshipTypes :: "RelationshipType list" where
  "AllRelationshipTypes =
     [OwnershipByFileOverlapRelationship,
      ContainsRelationship,
      DependencyOfRelationship,
      DescribedByRelationship]"

record 'd Relationship =
  From :: "ID option"
  To :: "ID option"
  Type :: RelationshipType
  Data :: 'd

text \<open>
  \<^verbatim>\<open>SBOM.RelationshipsForPackage(p, rt...)\<close>. The SBOM enters through its field
  \<^verbatim>\<open>Relationships\<close> and the package through \<^verbatim>\<open>p.ID()\<close>. The loop body is
  \<open>keepRelationship\<close>: each \<^verbatim>\<open>continue\<close> of the source is a \<open>False\<close> branch, in the
  source's order.
\<close>

definition keepRelationship :: "ID \<Rightarrow> RelationshipType list \<Rightarrow> 'd Relationship \<Rightarrow> bool" where
  "keepRelationship pid rt relationship =
     (if From relationship = None \<or> To relationship = None then False
      else if From relationship \<noteq> Some pid then False
      else if \<not> list_ex (\<lambda>r. Type relationship = r) rt then False
      else True)"

fun relationshipsLoop ::
  "ID \<Rightarrow> RelationshipType list \<Rightarrow> 'd Relationship list \<Rightarrow> 'd Relationship list \<Rightarrow> 'd Relationship list" where
  "relationshipsLoop pid rt acc [] = acc"
| "relationshipsLoop pid rt acc (relationship # rest) =
     (if keepRelationship pid rt relationship
      then relationshipsLoop pid rt (acc @ [relationship]) rest
      else relationshipsLoop pid rt acc rest)"

definition RelationshipsForPackage ::
  "'d Relationship list \<Rightarrow> ID \<Rightarrow> RelationshipType list \<Rightarrow> 'd Relationship list" where
  "RelationshipsForPackage relationships pid rt =
     (let rt' = (if length rt = 0 then AllRelationshipTypes else rt)
      in relationshipsLoop pid rt' [] relationships)"


section \<open>Executable format identification (executable cataloger)\<close>

text \<open>
  \<^verbatim>\<open>type ExecutableFormat string\<close> with the constants \<^verbatim>\<open>ELF\<close>, \<^verbatim>\<open>MachO\<close>, \<^verbatim>\<open>PE\<close>;
  the empty string is the answer for an unknown format. \<^verbatim>\<open>macho.Magic32\<close> and
  \<^verbatim>\<open>macho.Magic64\<close> are the constants of Go's \<^verbatim>\<open>debug/macho\<close>, and \<^verbatim>\<open>elf.ELFMAG\<close> is
  the four bytes 0x7f 'E' 'L' 'F'. \<^verbatim>\<open>binary.BigEndian.Uint32\<close> and
  \<^verbatim>\<open>binary.LittleEndian.Uint32\<close> assemble the first four bytes of a slice.
\<close>

type_synonym ExecutableFormat = string

definition ELF :: ExecutableFormat where "ELF = ''elf''"
definition MachO :: ExecutableFormat where "MachO = ''macho''"
definition PE :: ExecutableFormat where "PE = ''pe''"

definition BigEndian_Uint32 :: "byte list \<Rightarrow> 32 word" where
  "BigEndian_Uint32 b =
     ucast (b ! 3) OR push_bit 8 (ucast (b ! 2)) OR push_bit 16 (ucast (b ! 1)) OR push_bit 24 (ucast (b ! 0))"

definition LittleEndian_Uint32 :: "byte list \<Rightarrow> 32 word" where
  "LittleEndian_Uint32 b =
     ucast (b ! 0) OR push_bit 8 (ucast (b ! 1)) OR push_bit 16 (ucast (b ! 2)) OR push_bit 24 (ucast (b ! 3))"

definition Magic32 :: "32 word" where "Magic32 = 0xfeedface"
definition Magic64 :: "32 word" where "Magic64 = 0xfeedfacf"

definition classOrMachOFat :: "byte list \<Rightarrow> bool" where
  "classOrMachOFat inp =
     (if length inp < 8 then False else HasPrefix inp [0xCA, 0xFE, 0xBA, 0xBE])"

definition isMacho :: "byte list \<Rightarrow> bool" where
  "isMacho by' =
     (if classOrMachOFat by' \<and> by' ! 7 < 20 then True
      else if length by' < 4 then False
      else let be = BigEndian_Uint32 by'; le = LittleEndian_Uint32 by'
           in be = Magic32 \<or> le = Magic32 \<or> be = Magic64 \<or> le = Magic64)"

definition isPE :: "byte list \<Rightarrow> bool" where
  "isPE by' = HasPrefix by' [0x4D, 0x5A]"

definition isELF :: "byte list \<Rightarrow> bool" where
  "isELF by' = HasPrefix by' [0x7F, 0x45, 0x4C, 0x46]"

datatype exec_error = ReadFirstSector io_error | NotEnoughBytes

definition findExecutableFormat :: "byte list \<Rightarrow> exec_error + ExecutableFormat" where
  "findExecutableFormat reader =
     (case ReadAt reader 512 0 of (buf, n, err) \<Rightarrow>
        (case err of
           Some e \<Rightarrow> Inl (ReadFirstSector e)
         | None \<Rightarrow>
            if n < 512 then Inl NotEnoughBytes
            else if isMacho buf then Inr MachO
            else if isPE buf then Inr PE
            else if isELF buf then Inr ELF
            else Inr ''''))"



section \<open>Decoder collection (syft/format/decoders\_collection.go)\<close>

text \<open>
  \<^verbatim>\<open>sbom.FormatDecoder\<close> is an interface with the methods \<^verbatim>\<open>Decode\<close> and \<^verbatim>\<open>Identify\<close>:
  a record of two functions of the reader. The reader is the value both methods are
  handed, the same one at every call of the loop (what a method reads from it is the
  decoder's own business); a nil \<^verbatim>\<open>io.Reader\<close> is \<open>None\<close>. The four results of \<^verbatim>\<open>Decode\<close> are a tuple
  (SBOM pointer, format id, version, error). The errors the collection itself builds
  with \<^verbatim>\<open>fmt.Errorf\<close> are the first three constructors of \<open>decode_error\<close>; an error
  of a decoder is passed on unchanged (\<open>DecoderError\<close>).
\<close>

type_synonym FormatID = string

record ('r, 's, 'e) FormatDecoder =
  Decode :: "'r \<Rightarrow> 's option \<times> FormatID \<times> string \<times> 'e option"
  Identify :: "'r \<Rightarrow> FormatID \<times> string"

datatype 'e decode_error =
    NoSBOMBytes
  | VersionNotSupported FormatID
  | FormatNotRecognized
  | DecoderError 'e

definition runDecoder ::
  "('r, 's, 'e) FormatDecoder \<Rightarrow> 'r \<Rightarrow> 's option \<times> FormatID \<times> string \<times> 'e decode_error option" where
  "runDecoder d reader =
     (case Decode d reader of (s, fid, version, err) \<Rightarrow> (s, fid, version, map_option DecoderError err))"

fun decodeLoop ::
  "('r, 's, 'e) FormatDecoder list \<Rightarrow> 'r \<Rightarrow> FormatID
   \<Rightarrow> 's option \<times> FormatID \<times> string \<times> 'e decode_error option" where
  "decodeLoop [] reader bestID =
     (if bestID \<noteq> [] then (None, bestID, [], Some (VersionNotSupported bestID))
      else (None, [], [], Some FormatNotRecognized))"
| "decodeLoop (d # ds) reader bestID =
     (case Identify d reader of (fid, version) \<Rightarrow>
        if fid = [] \<or> version = []
        then decodeLoop ds reader (if fid \<noteq> [] then fid else bestID)
        else runDecoder d reader)"

definition DecoderCollection_Decode ::
  "('r, 's, 'e) FormatDecoder list \<Rightarrow> 'r option
   \<Rightarrow> 's option \<times> FormatID \<times> string \<times> 'e decode_error option" where
  "DecoderCollection_Decode decoders reader =
     (case reader of
        None \<Rightarrow> (None, [], [], Some NoSBOMBytes)
      | Some r \<Rightarrow> decodeLoop decoders r [])"

text \<open>
  The two tests the loop makes on the answer of \<^verbatim>\<open>Identify\<close>: both parts non-empty
  (the decoder is run), and the ids of the answers whose id is non-empty.
\<close>

definition identifiesBoth :: "'r \<Rightarrow> ('r, 's, 'e) FormatDecoder \<Rightarrow> bool" where
  "identifiesBoth reader d = (fst (Identify d reader) \<noteq> [] \<and> snd (Identify d reader) \<noteq> [])"

definition identifiedIDs :: "'r \<Rightarrow> ('r, 's, 'e) FormatDecoder list \<Rightarrow> FormatID list" where
  "identifiedIDs reader ds = filter (\<lambda>fid. fid \<noteq> []) (map (\<lambda>d. fst (Identify d reader)) ds)"


section \<open>Locations and location sets (syft/file)\<close>

text \<open>
  \<^verbatim>\<open>Coordinates\<close>, \<^verbatim>\<open>LocationData\<close>, \<^verbatim>\<open>LocationMetadata\<close> and \<^verbatim>\<open>Location\<close> are the
  structs of the source. The type of the unexported field \<^verbatim>\<open>ref\<close> (stereoscope's
  \<^verbatim>\<open>file.Reference\<close>, a comparable struct) is a type parameter. A Go
  \<^verbatim>\<open>map[string]string\<close> is a reference that may be nil: \<open>None\<close> is the nil map, and
  \<open>Some al\<close> a map with the entries of the association list \<open>al\<close>, read with
  \<open>map_of\<close> and written with \<open>AList.update\<close> (\<^verbatim>\<open>m[k] = v\<close>). Reading a nil map finds
  nothing; writing to it panics. Maps are values here: \<^verbatim>\<open>merge\<close> writes into the map
  that the stored metadata shares with the location added first, and the functions
  below return the map after the writes; what the location added first then holds
  is not read by any of them.
\<close>

record Coordinates =
  RealPath :: string
  FileSystemID :: string

record 'r LocationData =
  Coordinates :: Coordinates
  AccessPath :: string
  ref :: 'r

type_synonym annotations = "(string \<times> string) list option"

record LocationMetadata =
  Annotations :: annotations

record 'r Location =
  LocationData :: "'r LocationData"
  LocationMetadata :: LocationMetadata

datatype panic = AssignmentToEntryInNilMap

text \<open>
  The error \<^verbatim>\<open>merge\<close> builds for a key whose values differ carries the key, the value
  of the other metadata and the value already stored.
\<close>

datatype merge_conflict = Conflicting (conflictKey: string) (otherValue: string) (storedValue: string)

definition lookupAnnotation :: "annotations \<Rightarrow> string \<Rightarrow> string option" where
  "lookupAnnotation m k = (case m of None \<Rightarrow> None | Some al \<Rightarrow> map_of al k)"

text \<open>
  \<^verbatim>\<open>func (m *LocationMetadata) merge(other LocationMetadata) error\<close>: the loop over the
  entries of \<^verbatim>\<open>other.Annotations\<close>, here in the order of the list. The state is the
  receiver's map and the errors appended so far.
\<close>

fun mergeLoop ::
  "annotations \<Rightarrow> merge_conflict list \<Rightarrow> (string \<times> string) list
   \<Rightarrow> panic + (annotations \<times> merge_conflict list)" where
  "mergeLoop m errs [] = Inr (m, errs)"
| "mergeLoop m errs ((k, v) # rest) =
     (case lookupAnnotation m k of
        Some otherV \<Rightarrow>
          if v \<noteq> otherV then mergeLoop m (errs @ [Conflicting k v otherV]) rest
          else (case m of
                  None \<Rightarrow> Inl AssignmentToEntryInNilMap
                | Some al \<Rightarrow> mergeLoop (Some (AList.update k v al)) errs rest)
      | None \<Rightarrow>
          (case m of
             None \<Rightarrow> Inl AssignmentToEntryInNilMap
           | Some al \<Rightarrow> mergeLoop (Some (AList.update k v al)) errs rest))"

definition merge :: "LocationMetadata \<Rightarrow> LocationMetadata \<Rightarrow> panic + (LocationMetadata \<times> merge_conflict list)" where
  "merge m other =
     (case mergeLoop (Annotations m) [] (case Annotations other of None \<Rightarrow> [] | Some al \<Rightarrow> al) of
        Inl p \<Rightarrow> Inl p
      | Inr (a, errs) \<Rightarrow> Inr (m\<lparr>Annotations := a\<rparr>, errs))"

text \<open>
  \<^verbatim>\<open>LocationSet\<close> holds \<^verbatim>\<open>map[LocationData]LocationMetadata\<close>; the zero value has a nil
  map, which \<^verbatim>\<open>Add\<close> replaces by an empty one. \<^verbatim>\<open>Add\<close> returns the new set and the
  debug messages it logged: one message, with the errors of \<^verbatim>\<open>merge\<close>, for each
  partial merge.
\<close>

type_synonym 'r LocationSet = "('r LocationData \<rightharpoonup> LocationMetadata) option"

fun addLoop ::
  "('r LocationData \<rightharpoonup> LocationMetadata) \<Rightarrow> merge_conflict list list \<Rightarrow> 'r Location list
   \<Rightarrow> panic + ('r LocationSet \<times> merge_conflict list list)" where
  "addLoop s log [] = Inr (Some s, log)"
| "addLoop s log (l # rest) =
     (case s (LocationData l) of
        Some m \<Rightarrow>
          (case merge m (LocationMetadata l) of
             Inl p \<Rightarrow> Inl p
           | Inr (m', err) \<Rightarrow>
               addLoop (s(LocationData l \<mapsto> m')) (if err \<noteq> [] then log @ [err] else log) rest)
      | None \<Rightarrow> addLoop (s(LocationData l \<mapsto> LocationMetadata l)) log rest)"

definition Add ::
  "'r LocationSet \<Rightarrow> 'r Location list \<Rightarrow> panic + ('r LocationSet \<times> merge_conflict list list)" where
  "Add s locations =
     addLoop (case s of None \<Rightarrow> Map.empty | Some m \<Rightarrow> m) [] locations"

text \<open>
  \<^verbatim>\<open>NewLocationSet\<close> calls \<^verbatim>\<open>Add\<close> once for each location, on a set that starts as the
  zero value.
\<close>

fun newLoop ::
  "'r LocationSet \<Rightarrow> merge_conflict list list \<Rightarrow> 'r Location list
   \<Rightarrow> panic + ('r LocationSet \<times> merge_conflict list list)" where
  "newLoop s log [] = Inr (s, log)"
| "newLoop s log (l # rest) =
     (case Add s [l] of
        Inl p \<Rightarrow> Inl p
      | Inr (s', log') \<Rightarrow> newLoop s' (log @ log') rest)"

definition NewLocationSet :: "'r Location list \<Rightarrow> panic + ('r LocationSet \<times> merge_conflict list list)" where
  "NewLocationSet locations = newLoop None [] locations"

text \<open>\<^verbatim>\<open>Contains\<close>, and the number of entries of the set's map (\<^verbatim>\<open>len(s.set)\<close>).\<close>

definition Contains :: "'r LocationSet \<Rightarrow> 'r Location \<Rightarrow> bool" where
  "Contains s l = (case s of None \<Rightarrow> False | Some m \<Rightarrow> m (LocationData l) \<noteq> None)"

definition members :: "'r LocationSet \<Rightarrow> 'r LocationData set" where
  "members s = (case s of None \<Rightarrow> {} | Some m \<Rightarrow> dom m)"

text \<open>\<^verbatim>\<open>NewLocation\<close> and \<^verbatim>\<open>NewVirtualLocationFromCoordinates\<close>, with an empty map of annotations.\<close>

definition NewVirtualLocationFromCoordinates :: "Coordinates \<Rightarrow> string \<Rightarrow> 'r \<Rightarrow> 'r Location" where
  "NewVirtualLocationFromCoordinates coordinates accessPath zeroRef =
     \<lparr>LocationData = \<lparr>Coordinates = coordinates, AccessPath = accessPath, ref = zeroRef\<rparr>,
      LocationMetadata = \<lparr>Annotations = Some []\<rparr>\<rparr>"

definition WithAnnotation :: "'r Location \<Rightarrow> string \<Rightarrow> string \<Rightarrow> 'r Location" where
  "WithAnnotation l key val =
     l\<lparr>LocationMetadata :=
         \<lparr>Annotations = Some (AList.update key val
            (case Annotations (LocationMetadata l) of None \<Rightarrow> [] | Some al \<Rightarrow> al))\<rparr>\<rparr>"


text \<open>
  The errors a merge of the incoming entries \<open>kvs\<close> into the stored entries \<open>al\<close>
  reports: one for each incoming entry whose key is stored with another value.
\<close>

fun conflictingEntries :: "(string \<times> string) list \<Rightarrow> (string \<times> string) list \<Rightarrow> merge_conflict list" where
  "conflictingEntries al [] = []"
| "conflictingEntries al ((k, v) # rest) =
     (case map_of al k of
        Some otherV \<Rightarrow> (if v \<noteq> otherV then [Conflicting k v otherV] else []) @ conflictingEntries al rest
      | None \<Rightarrow> conflictingEntries al rest)"

text \<open>The invariant under which no merge of \<^verbatim>\<open>Add\<close> writes to a nil map.\<close>

definition nonNilStored :: "('r LocationData \<rightharpoonup> LocationMetadata) \<Rightarrow> bool" where
  "nonNilStored s = (\<forall>d m. s d = Some m \<longrightarrow> Annotations m \<noteq> None)"


section \<open>CPE ordering and merge (syft/cpe)\<close>

text \<open>
  \<^verbatim>\<open>type CPE struct { Attributes Attributes; Source Source }\<close> with
  \<^verbatim>\<open>type Source string\<close>. \<^verbatim>\<open>Attributes\<close> has the eleven string fields of a CPE 2.3
  name. The declarations are in files of the package that are not among the sources
  read here; what the functions below use of them is the five fields \<^verbatim>\<open>Part\<close>,
  \<^verbatim>\<open>Vendor\<close>, \<^verbatim>\<open>Product\<close>, \<^verbatim>\<open>Version\<close>, \<^verbatim>\<open>TargetSW\<close>, the method
  \<^verbatim>\<open>BindToFmtString\<close>, which is a parameter \<open>bind\<close> of every function that calls it,
  and \<^verbatim>\<open>Source.String\<close>, the string itself. The field \<^verbatim>\<open>Version\<close> is \<open>VersionAttr\<close>
  here, to keep it apart from the method \<^verbatim>\<open>Version\<close> of an encoder. Strings are compared as Go compares
  them: byte by byte, lexicographically.
\<close>

type_synonym Source = string

record Attributes =
  Part :: string
  Vendor :: string
  Product :: string
  VersionAttr :: string
  Update :: string
  Edition :: string
  SWEdition :: string
  TargetSW :: string
  TargetHW :: string
  Other :: string
  Language :: string

record CPE =
  Attributes :: Attributes
  Source :: Source

text \<open>
  Modelled from the spec: the three source constants \<^verbatim>\<open>NVDDictionaryLookupSource\<close>,
  \<^verbatim>\<open>DeclaredSource\<close> and \<^verbatim>\<open>GeneratedSource\<close> are declared outside the sources read
  here; the spec names them \<^verbatim>\<open>nvd-dictionary-lookup\<close>, \<^verbatim>\<open>declared\<close> and
  \<^verbatim>\<open>generated\<close>. Only that they are three different strings matters below.
\<close>

definition NVDDictionaryLookupSource :: Source where
  "NVDDictionaryLookupSource = ''nvd-dictionary-lookup''"

definition DeclaredSource :: Source where
  "DeclaredSource = ''declared''"

definition GeneratedSource :: Source where
  "GeneratedSource = ''generated''"

text \<open>\<^verbatim>\<open>countFieldLength\<close> and \<^verbatim>\<open>weightedCountForSpecifiedFields\<close> (by\_specificity.go).\<close>

definition countFieldLength :: "Attributes \<Rightarrow> nat" where
  "countFieldLength cpe = length (Part cpe @ Vendor cpe @ Product cpe @ VersionAttr cpe @ TargetSW cpe)"

definition checksForSpecifiedField :: "(Attributes \<Rightarrow> bool \<times> nat) list" where
  "checksForSpecifiedField =
     [\<lambda>cpe. (Part cpe \<noteq> [], 2),
      \<lambda>cpe. (Vendor cpe \<noteq> [], 3),
      \<lambda>cpe. (Product cpe \<noteq> [], 4),
      \<lambda>cpe. (VersionAttr cpe \<noteq> [], 1),
      \<lambda>cpe. (TargetSW cpe \<noteq> [], 1)]"

fun weightedCountLoop :: "Attributes \<Rightarrow> nat \<Rightarrow> (Attributes \<Rightarrow> bool \<times> nat) list \<Rightarrow> nat" where
  "weightedCountLoop cpe weightedCount [] = weightedCount"
| "weightedCountLoop cpe weightedCount (fieldIsSpecified # rest) =
     (case fieldIsSpecified cpe of (isSpecified, weight) \<Rightarrow>
        weightedCountLoop cpe (if isSpecified then weightedCount + weight else weightedCount) rest)"

definition weightedCountForSpecifiedFields :: "Attributes \<Rightarrow> nat" where
  "weightedCountForSpecifiedFields cpe = weightedCountLoop cpe 0 checksForSpecifiedField"

text \<open>\<^verbatim>\<open>isMoreSpecific\<close>: the higher score first, then the longer fields, then the text order.\<close>

definition isMoreSpecific :: "(Attributes \<Rightarrow> string) \<Rightarrow> Attributes \<Rightarrow> Attributes \<Rightarrow> bool" where
  "isMoreSpecific bind i j =
     (let iScore = weightedCountForSpecifiedFields i;
          jScore = weightedCountForSpecifiedFields j
      in if iScore \<noteq> jScore then iScore > jScore
         else if countFieldLength i \<noteq> countFieldLength j then countFieldLength i > countFieldLength j
         else bind i < bind j)"

text \<open>\<^verbatim>\<open>BySourceThenSpecificity.Less\<close>, on the two elements \<^verbatim>\<open>b[i]\<close> and \<^verbatim>\<open>b[j]\<close>.\<close>

definition sourceOrder :: "(Source \<times> nat) list" where
  "sourceOrder = [(NVDDictionaryLookupSource, 1), (DeclaredSource, 2), (GeneratedSource, 3)]"

definition getRank :: "Source \<Rightarrow> nat" where
  "getRank source = (case map_of sourceOrder source of Some rank \<Rightarrow> rank | None \<Rightarrow> 4)"

definition Less :: "(Attributes \<Rightarrow> string) \<Rightarrow> CPE \<Rightarrow> CPE \<Rightarrow> bool" where
  "Less bind bi bj =
     (let iSource = Source bi; jSource = Source bj;
          rankI = getRank iSource; rankJ = getRank jSource
      in if rankI \<noteq> rankJ then rankI < rankJ
         else isMoreSpecific bind (Attributes bi) (Attributes bj))"

text \<open>
  \<^verbatim>\<open>Merge\<close>. The map \<^verbatim>\<open>dedupe\<close> is an association list with one entry for each key,
  written by \<^verbatim>\<open>dedupe[key(s)] = s\<close>. Go ranges over a map in an unspecified order, and
  \<^verbatim>\<open>sort.Sort\<close> is not stable: what \<^verbatim>\<open>Merge\<close> may return is any list that holds the
  values of the map and in which no element is \<open>Less\<close> than an element before it
  (\<open>MergeOutcome\<close>). \<open>Merge\<close> is the outcome for the order of first insertion and an
  insertion sort.
\<close>

definition key :: "(Attributes \<Rightarrow> string) \<Rightarrow> CPE \<Rightarrow> string" where
  "key bind scpe = Source scpe @ '':'' @ bind (Attributes scpe)"









text \<open>
  A stand-in for \<^verbatim>\<open>BindToFmtString\<close>, used only to evaluate the functions at concrete
  CPEs: the fields joined by colons after the prefix \<^verbatim>\<open>cpe:2.3\<close>, an empty field written
  as a star. Every general statement below holds for any \<open>bind\<close>.
\<close>

definition exampleBind :: "Attributes \<Rightarrow> string" where
  "exampleBind x =
     foldl (\<lambda>acc f. acc @ '':'' @ (if f = [] then ''*'' else f)) ''cpe:2.3''
       [Part x, Vendor x, Product x, VersionAttr x, Update x, Edition x, Language x,
        SWEdition x, TargetSW x, TargetHW x, Other x]"


section \<open>Extracting a ZIP archive to a directory (syft file package, zip file utilities)\<close>

text \<open>
  \<^verbatim>\<open>filepath.Clean\<close> and \<^verbatim>\<open>filepath.Join\<close> of Go's library, for a system whose separator
  is the slash and that has no volume names, by the rules of their documentation: a path
  is split into its elements; empty elements and \<^verbatim>\<open>.\<close> are dropped; \<^verbatim>\<open>..\<close> removes the
  element before it, is dropped at the root of a rooted path and is kept at the front of
  a relative one; the empty result is \<^verbatim>\<open>.\<close>. \<^verbatim>\<open>Join\<close> ignores the empty elements in
  front, joins the rest with slashes and cleans the result.
\<close>

fun splitSepLoop :: "string \<Rightarrow> string \<Rightarrow> string list" where
  "splitSepLoop cur [] = [cur]"
| "splitSepLoop cur (c # cs) =
     (if c = CHR ''/'' then cur # splitSepLoop [] cs else splitSepLoop (cur @ [c]) cs)"

definition splitSep :: "string \<Rightarrow> string list" where
  "splitSep path = splitSepLoop [] path"

fun joinSep :: "string list \<Rightarrow> string" where
  "joinSep [] = []"
| "joinSep [e] = e"
| "joinSep (e # es) = e @ ''/'' @ joinSep es"

fun cleanElems :: "bool \<Rightarrow> string list \<Rightarrow> string list \<Rightarrow> string list" where
  "cleanElems rooted out [] = out"
| "cleanElems rooted out (e # es) =
     (if e = [] \<or> e = ''.'' then cleanElems rooted out es
      else if e = ''..'' then
        (if out \<noteq> [] \<and> last out \<noteq> ''..'' then cleanElems rooted (butlast out) es
         else if \<not> rooted then cleanElems rooted (out @ [''..'']) es
         else cleanElems rooted out es)
      else cleanElems rooted (out @ [e]) es)"

definition Clean :: "string \<Rightarrow> string" where
  "Clean path =
     (if path = [] then ''.''
      else let rooted = (hd path = CHR ''/'');
               out = (if rooted then ''/'' else []) @ joinSep (cleanElems rooted [] (splitSep path))
           in if out = [] then ''.'' else out)"

fun Join :: "string list \<Rightarrow> string" where
  "Join [] = []"
| "Join (e # elem) = (if e \<noteq> [] then Clean (joinSep (e # elem)) else Join elem)"

text \<open>
  \<^verbatim>\<open>safeJoin\<close>: the error value \<^verbatim>\<open>errZipSlipDetected\<close> carries the prefix and the joined
  arguments.
\<close>

datatype 'e unzip_error =
    errZipSlipDetected (Prefix: string) (JoinArgs: "string list")
  | OpenZipError 'e
  | ExtractError 'e

definition safeJoin :: "string \<Rightarrow> string list \<Rightarrow> 'e unzip_error + string" where
  "safeJoin prefix dest =
     (let joinResult = Join (prefix # dest);
          cleanJoinResult = Clean joinResult
      in if \<not> HasPrefix cleanJoinResult (Clean prefix)
         then Inl (errZipSlipDetected prefix dest)
         else Inr joinResult)"

text \<open>
  \<^verbatim>\<open>UnzipToDir\<close> through \<^verbatim>\<open>TraverseFilesInZip\<close> with no selected paths: every file of the
  opened archive is visited in order, and the first error of the visitor ends the
  traversal. The archive enters as the result of \<^verbatim>\<open>OpenZip\<close>: an error or the names of
  its files. \<^verbatim>\<open>extractSingleFile\<close> creates a directory or a file at the path it is
  given; whether the operating system lets it is the parameter \<open>extract\<close> (\<open>None\<close> for
  success). The result is the list of the paths \<^verbatim>\<open>extractSingleFile\<close> was called on,
  which are the paths written to, and the error, if any.
\<close>

fun unzipLoop ::
  "(string \<Rightarrow> string \<Rightarrow> 'e option) \<Rightarrow> string \<Rightarrow> string list \<Rightarrow> string list
   \<Rightarrow> string list \<times> 'e unzip_error option" where
  "unzipLoop extract targetDir written [] = (written, None)"
| "unzipLoop extract targetDir written (name # files) =
     (case safeJoin targetDir [name] of
        Inl err \<Rightarrow> (written, Some err)
      | Inr joinedPath \<Rightarrow>
          (case extract name joinedPath of
             Some e \<Rightarrow> (written @ [joinedPath], Some (ExtractError e))
           | None \<Rightarrow> unzipLoop extract targetDir (written @ [joinedPath]) files))"

definition UnzipToDir ::
  "(string \<Rightarrow> string \<Rightarrow> 'e option) \<Rightarrow> ('e + string list) \<Rightarrow> string
   \<Rightarrow> string list \<times> 'e unzip_error option" where
  "UnzipToDir extract archive targetDir =
     (case archive of
        Inl e \<Rightarrow> ([], Some (OpenZipError e))
      | Inr files \<Rightarrow> unzipLoop extract targetDir [] files)"

text \<open>
  A path is inside a root directory when the elements of the cleaned root are the first
  elements of the cleaned path.
\<close>

definition pathElements :: "string \<Rightarrow> string list" where
  "pathElements path = filter (\<lambda>e. e \<noteq> []) (splitSep (Clean path))"

definition insideRoot :: "string \<Rightarrow> string \<Rightarrow> bool" where
  "insideRoot root path = HasPrefix (pathElements path) (pathElements root)"


section \<open>Encoder collection (syft format package)\<close>

text \<open>
  \<^verbatim>\<open>sbom.FormatEncoder\<close> is an interface with the methods \<^verbatim>\<open>ID\<close>, \<^verbatim>\<open>Aliases\<close>,
  \<^verbatim>\<open>Version\<close> and \<^verbatim>\<open>Encode\<close>; \<^verbatim>\<open>Get\<close> reads the first three. A nil interface is
  \<open>None\<close>. \<^verbatim>\<open>sbom.AnyVersion\<close> is the empty string.
\<close>

record 'w FormatEncoder =
  ID :: FormatID
  Aliases :: "string list"
  Version :: string
  Encode :: 'w




























section \<open>Start of a ZIP archive with prepended bytes (zip read closer)\<close>























chapter \<open>Properties\<close>

section \<open>Relationships returned for a package\<close>

lemma relationshipsLoop_filter:
  "relationshipsLoop pid rt acc rs = acc @ filter (keepRelationship pid rt) rs"
  by (induction rs arbitrary: acc) simp_all

lemma RelationshipsForPackage_filter:
  "RelationshipsForPackage rs pid rt =
     filter (keepRelationship pid (if rt = [] then AllRelationshipTypes else rt)) rs"
  by (simp add: RelationshipsForPackage_def relationshipsLoop_filter)

lemma EvidentBy_not_in_All: "EvidentByRelationship \<notin> set AllRelationshipTypes"
  by (simp add: AllRelationshipTypes_def EvidentByRelationship_def
      OwnershipByFileOverlapRelationship_def ContainsRelationship_def
      DependencyOfRelationship_def DescribedByRelationship_def)

lemma keepRelationship_Type:
  "keepRelationship pid rt r \<Longrightarrow> Type r \<in> set rt"
  by (auto simp: keepRelationship_def list_ex_iff split: if_splits)

text \<open>
  Claim C10. Called with no relationship-type argument, \<open>RelationshipsForPackage\<close>
  filters against \<open>AllRelationshipTypes\<close>, which lists exactly ownership-by-file-overlap,
  contains, dependency-of and described-by. The declared type evident-by differs from
  all four, so no relationship of type evident-by is ever in the result of an unfiltered
  call.
\<close>

theorem C10_unfiltered_call_drops_evident_by:
  "RelationshipsForPackage rs pid [] = RelationshipsForPackage rs pid AllRelationshipTypes
   \<and> AllRelationshipTypes =
       [''ownership-by-file-overlap'', ''contains'', ''dependency-of'', ''described-by'']
   \<and> EvidentByRelationship = ''evident-by''
   \<and> EvidentByRelationship \<notin> set AllRelationshipTypes
   \<and> (\<forall>r \<in> set (RelationshipsForPackage rs pid []). Type r \<noteq> EvidentByRelationship)"
proof -
  have same: "RelationshipsForPackage rs pid [] = RelationshipsForPackage rs pid AllRelationshipTypes"
    by (simp add: RelationshipsForPackage_filter AllRelationshipTypes_def)
  have names: "AllRelationshipTypes =
       [''ownership-by-file-overlap'', ''contains'', ''dependency-of'', ''described-by'']"
    by (simp add: AllRelationshipTypes_def OwnershipByFileOverlapRelationship_def
        ContainsRelationship_def DependencyOfRelationship_def DescribedByRelationship_def)
  have none: "Type r \<noteq> EvidentByRelationship"
    if "r \<in> set (RelationshipsForPackage rs pid [])" for r
  proof
    assume eq: "Type r = EvidentByRelationship"
    from that have "keepRelationship pid AllRelationshipTypes r"
      by (simp add: RelationshipsForPackage_filter)
    then have "Type r \<in> set AllRelationshipTypes"
      by (rule keepRelationship_Type)
    with eq EvidentBy_not_in_All show False by simp
  qed
  from same names none EvidentBy_not_in_All show ?thesis
    by (simp add: EvidentByRelationship_def)
qed

theorem C10_unfiltered_call_drops_evident_by_witness:
  "RelationshipsForPackage
     [\<lparr>From = Some ''p1'', To = Some ''f1'', Type = ''evident-by'', Data = ()\<rparr>,
      \<lparr>From = Some ''p1'', To = Some ''p2'', Type = ''contains'', Data = ()\<rparr>,
      \<lparr>From = Some ''p2'', To = Some ''p1'', Type = ''dependency-of'', Data = ()\<rparr>,
      \<lparr>From = None, To = Some ''p1'', Type = ''contains'', Data = ()\<rparr>]
     ''p1'' []
   = [\<lparr>From = Some ''p1'', To = Some ''p2'', Type = ''contains'', Data = ()\<rparr>]"
  using C10_unfiltered_call_drops_evident_by
    [of "[\<lparr>From = Some ''p1'', To = Some ''f1'', Type = ''evident-by'', Data = ()\<rparr>,
      \<lparr>From = Some ''p1'', To = Some ''p2'', Type = ''contains'', Data = ()\<rparr>,
      \<lparr>From = Some ''p2'', To = Some ''p1'', Type = ''dependency-of'', Data = ()\<rparr>,
      \<lparr>From = None, To = Some ''p1'', Type = ''contains'', Data = ()\<rparr>]" "''p1''"]
  by (simp add: RelationshipsForPackage_def keepRelationship_def AllRelationshipTypes_def
      OwnershipByFileOverlapRelationship_def ContainsRelationship_def
      DependencyOfRelationship_def DescribedByRelationship_def)


section \<open>Executable format identification\<close>

lemma be_byte0: "ucast (drop_bit 24 (BigEndian_Uint32 b)) = b ! 0"
  unfolding BigEndian_Uint32_def
  by (rule bit_word_eqI) (auto simp: bit_simps dest: bit_imp_le_length)

lemma be_byte1: "ucast (drop_bit 16 (BigEndian_Uint32 b)) = b ! 1"
  unfolding BigEndian_Uint32_def
  by (rule bit_word_eqI) (auto simp: bit_simps dest: bit_imp_le_length)

lemma be_byte2: "ucast (drop_bit 8 (BigEndian_Uint32 b)) = b ! 2"
  unfolding BigEndian_Uint32_def
  by (rule bit_word_eqI) (auto simp: bit_simps dest: bit_imp_le_length)

lemma be_byte3: "ucast (BigEndian_Uint32 b) = b ! 3"
  unfolding BigEndian_Uint32_def
  by (rule bit_word_eqI) (auto simp: bit_simps dest: bit_imp_le_length)

lemma le_byte0: "ucast (LittleEndian_Uint32 b) = b ! 0"
  unfolding LittleEndian_Uint32_def
  by (rule bit_word_eqI) (auto simp: bit_simps dest: bit_imp_le_length)

lemma le_byte1: "ucast (drop_bit 8 (LittleEndian_Uint32 b)) = b ! 1"
  unfolding LittleEndian_Uint32_def
  by (rule bit_word_eqI) (auto simp: bit_simps dest: bit_imp_le_length)

lemma le_byte2: "ucast (drop_bit 16 (LittleEndian_Uint32 b)) = b ! 2"
  unfolding LittleEndian_Uint32_def
  by (rule bit_word_eqI) (auto simp: bit_simps dest: bit_imp_le_length)

lemma le_byte3: "ucast (drop_bit 24 (LittleEndian_Uint32 b)) = b ! 3"
  unfolding LittleEndian_Uint32_def
  by (rule bit_word_eqI) (auto simp: bit_simps dest: bit_imp_le_length)

lemma be_magic32:
  "BigEndian_Uint32 b = 0xfeedface \<longleftrightarrow> b ! 0 = 0xFE \<and> b ! 1 = 0xED \<and> b ! 2 = 0xFA \<and> b ! 3 = 0xCE"
proof
  assume h: "BigEndian_Uint32 b = 0xfeedface"
  show "b ! 0 = 0xFE \<and> b ! 1 = 0xED \<and> b ! 2 = 0xFA \<and> b ! 3 = 0xCE"
    using be_byte0[of b] be_byte1[of b] be_byte2[of b] be_byte3[of b] unfolding h by simp
next
  assume "b ! 0 = 0xFE \<and> b ! 1 = 0xED \<and> b ! 2 = 0xFA \<and> b ! 3 = 0xCE"
  then show "BigEndian_Uint32 b = 0xfeedface"
    by (simp add: BigEndian_Uint32_def)
qed


lemma be_magic64:
  "BigEndian_Uint32 b = 0xfeedfacf \<longleftrightarrow> b ! 0 = 0xFE \<and> b ! 1 = 0xED \<and> b ! 2 = 0xFA \<and> b ! 3 = 0xCF"
proof
  assume h: "BigEndian_Uint32 b = 0xfeedfacf"
  show "b ! 0 = 0xFE \<and> b ! 1 = 0xED \<and> b ! 2 = 0xFA \<and> b ! 3 = 0xCF"
    using be_byte0[of b] be_byte1[of b] be_byte2[of b] be_byte3[of b] unfolding h by simp
next
  assume "b ! 0 = 0xFE \<and> b ! 1 = 0xED \<and> b ! 2 = 0xFA \<and> b ! 3 = 0xCF"
  then show "BigEndian_Uint32 b = 0xfeedfacf"
    by (simp add: BigEndian_Uint32_def)
qed

lemma le_magic32:
  "LittleEndian_Uint32 b = 0xfeedface \<longleftrightarrow> b ! 0 = 0xCE \<and> b ! 1 = 0xFA \<and> b ! 2 = 0xED \<and> b ! 3 = 0xFE"
proof
  assume h: "LittleEndian_Uint32 b = 0xfeedface"
  show "b ! 0 = 0xCE \<and> b ! 1 = 0xFA \<and> b ! 2 = 0xED \<and> b ! 3 = 0xFE"
    using le_byte0[of b] le_byte1[of b] le_byte2[of b] le_byte3[of b] unfolding h by simp
next
  assume "b ! 0 = 0xCE \<and> b ! 1 = 0xFA \<and> b ! 2 = 0xED \<and> b ! 3 = 0xFE"
  then show "LittleEndian_Uint32 b = 0xfeedface"
    by (simp add: LittleEndian_Uint32_def)
qed

lemma le_magic64:
  "LittleEndian_Uint32 b = 0xfeedfacf \<longleftrightarrow> b ! 0 = 0xCF \<and> b ! 1 = 0xFA \<and> b ! 2 = 0xED \<and> b ! 3 = 0xFE"
proof
  assume h: "LittleEndian_Uint32 b = 0xfeedfacf"
  show "b ! 0 = 0xCF \<and> b ! 1 = 0xFA \<and> b ! 2 = 0xED \<and> b ! 3 = 0xFE"
    using le_byte0[of b] le_byte1[of b] le_byte2[of b] le_byte3[of b] unfolding h by simp
next
  assume "b ! 0 = 0xCF \<and> b ! 1 = 0xFA \<and> b ! 2 = 0xED \<and> b ! 3 = 0xFE"
  then show "LittleEndian_Uint32 b = 0xfeedfacf"
    by (simp add: LittleEndian_Uint32_def)
qed

lemma HasPrefix4:
  "4 \<le> length s \<Longrightarrow>
   HasPrefix s [a, b, c, d] \<longleftrightarrow> s ! 0 = a \<and> s ! 1 = b \<and> s ! 2 = c \<and> s ! 3 = d"
  by (cases s; cases "tl s"; cases "tl (tl s)"; cases "tl (tl (tl s))")
     (auto simp: HasPrefix_def)

lemma ReadAt_full:
  "len \<le> length r \<Longrightarrow> ReadAt r len 0 = (take len r, len, None)"
  by (simp add: ReadAt_def Let_def min_def)

lemma ReadAt_short:
  "length r < len \<Longrightarrow> ReadAt r len 0 = (r @ replicate (len - length r) 0, length r, Some EOF)"
  by (simp add: ReadAt_def Let_def min_def)

lemma isMacho_magic:
  assumes "8 \<le> length buf"
  shows "isMacho buf \<longleftrightarrow>
     (HasPrefix buf [0xCA, 0xFE, 0xBA, 0xBE] \<and> buf ! 7 < 20)
     \<or> HasPrefix buf [0xFE, 0xED, 0xFA, 0xCE] \<or> HasPrefix buf [0xCE, 0xFA, 0xED, 0xFE]
     \<or> HasPrefix buf [0xFE, 0xED, 0xFA, 0xCF] \<or> HasPrefix buf [0xCF, 0xFA, 0xED, 0xFE]"
proof -
  from assms have l4: "4 \<le> length buf" by simp
  show ?thesis
    using assms
    by (auto simp: isMacho_def classOrMachOFat_def Let_def Magic32_def Magic64_def
        be_magic32 be_magic64 le_magic32 le_magic64 HasPrefix4[OF l4])
qed

lemma findExecutableFormat_short:
  "length data < 512 \<Longrightarrow> findExecutableFormat data = Inl (ReadFirstSector EOF)"
  by (simp add: findExecutableFormat_def ReadAt_short)

text \<open>
  Claim C9, as amended. Executable format identification reads the first 512 bytes. For
  a file of at least 512 bytes it classifies the buffer by its magic number: a buffer
  that begins with 0xCAFEBABE and whose byte at position 7 is below 20, or that begins
  with a Mach-O magic (0xfeedface or 0xfeedfacf, in either byte order), is MachO;
  otherwise a buffer that begins with 'MZ' is PE; otherwise one that begins with 0x7f
  'ELF' is ELF; otherwise the format is empty. A Java class file (0xCAFEBABE with byte 7
  at least 20) gets the empty format. For a file of fewer than 512 bytes the read ends
  with \<^verbatim>\<open>io.EOF\<close> and the answer is the error of the read, whatever the file begins
  with.
\<close>

theorem C9_format_by_magic:
  "(512 \<le> length data \<longrightarrow>
      findExecutableFormat data =
        Inr (if (HasPrefix (take 512 data) [0xCA, 0xFE, 0xBA, 0xBE] \<and> take 512 data ! 7 < 20)
                \<or> HasPrefix (take 512 data) [0xFE, 0xED, 0xFA, 0xCE]
                \<or> HasPrefix (take 512 data) [0xCE, 0xFA, 0xED, 0xFE]
                \<or> HasPrefix (take 512 data) [0xFE, 0xED, 0xFA, 0xCF]
                \<or> HasPrefix (take 512 data) [0xCF, 0xFA, 0xED, 0xFE]
             then MachO
             else if HasPrefix (take 512 data) [0x4D, 0x5A] then PE
             else if HasPrefix (take 512 data) [0x7F, 0x45, 0x4C, 0x46] then ELF
             else [])
      \<and> (HasPrefix (take 512 data) [0xCA, 0xFE, 0xBA, 0xBE] \<and> 20 \<le> take 512 data ! 7
           \<longrightarrow> findExecutableFormat data = Inr []))
   \<and> (length data < 512 \<longrightarrow> findExecutableFormat data = Inl (ReadFirstSector EOF))"
proof (intro conjI impI)
  let ?buf = "take 512 data"
  assume long: "512 \<le> length data"
  then have len: "8 \<le> length ?buf" by simp
  from long have rd: "ReadAt data 512 0 = (?buf, 512, None)" by (rule ReadAt_full)
  show main: "findExecutableFormat data =
     Inr (if (HasPrefix ?buf [0xCA, 0xFE, 0xBA, 0xBE] \<and> ?buf ! 7 < 20)
             \<or> HasPrefix ?buf [0xFE, 0xED, 0xFA, 0xCE]
             \<or> HasPrefix ?buf [0xCE, 0xFA, 0xED, 0xFE]
             \<or> HasPrefix ?buf [0xFE, 0xED, 0xFA, 0xCF]
             \<or> HasPrefix ?buf [0xCF, 0xFA, 0xED, 0xFE]
          then MachO
          else if HasPrefix ?buf [0x4D, 0x5A] then PE
          else if HasPrefix ?buf [0x7F, 0x45, 0x4C, 0x46] then ELF
          else [])"
    unfolding findExecutableFormat_def rd
    by (simp add: isMacho_magic[OF len] isPE_def isELF_def del: take_eq_Nil)
  assume h: "HasPrefix ?buf [0xCA, 0xFE, 0xBA, 0xBE] \<and> 20 \<le> ?buf ! 7"
  from len have l4: "4 \<le> length ?buf" by simp
  from h have b: "?buf ! 0 = 0xCA" "?buf ! 1 = 0xFE" "\<not> ?buf ! 7 < 20"
    by (simp_all add: HasPrefix4[OF l4] not_less)
  from len have l2: "2 \<le> length ?buf" by simp
  have nope: "\<not> HasPrefix ?buf [0x4D, 0x5A]"
    using b l2 by (cases ?buf; cases "tl ?buf") (auto simp: HasPrefix_def)
  show "findExecutableFormat data = Inr []"
    unfolding main using b nope by (simp add: HasPrefix4[OF l4])
next
  assume "length data < 512"
  then show "findExecutableFormat data = Inl (ReadFirstSector EOF)"
    by (rule findExecutableFormat_short)
qed

theorem C9_format_by_magic_witness:
  "512 \<le> length ([0xCA, 0xFE, 0xBA, 0xBE, 0, 0, 0, 0x34] @ replicate 504 (0::byte))
   \<and> findExecutableFormat ([0xCA, 0xFE, 0xBA, 0xBE, 0, 0, 0, 0x34] @ replicate 504 0) = Inr []
   \<and> 512 \<le> length ([0xCA, 0xFE, 0xBA, 0xBE, 0, 0, 0, 2] @ replicate 504 (0::byte))
   \<and> findExecutableFormat ([0xCA, 0xFE, 0xBA, 0xBE, 0, 0, 0, 2] @ replicate 504 0) = Inr ''macho''
   \<and> findExecutableFormat ([0x7F, 0x45, 0x4C, 0x46, 2, 1, 1, 0] @ replicate 504 0) = Inr ''elf''
   \<and> findExecutableFormat ([0x4D, 0x5A, 0x90, 0, 3, 0, 0, 0] @ replicate 504 0) = Inr ''pe''
   \<and> findExecutableFormat ([0xCF, 0xFA, 0xED, 0xFE, 7, 0, 0, 1] @ replicate 504 0) = Inr ''macho''
   \<and> length ([0x4D, 0x5A, 0x90, 0] :: byte list) < 512
   \<and> findExecutableFormat [0x4D, 0x5A, 0x90, 0] = Inl (ReadFirstSector EOF)"
  using C9_format_by_magic [of "[0xCA, 0xFE, 0xBA, 0xBE, 0, 0, 0, 0x34] @ replicate 504 0"]
    C9_format_by_magic [of "[0xCA, 0xFE, 0xBA, 0xBE, 0, 0, 0, 2] @ replicate 504 0"]
    C9_format_by_magic [of "[0x7F, 0x45, 0x4C, 0x46, 2, 1, 1, 0] @ replicate 504 0"]
    C9_format_by_magic [of "[0x4D, 0x5A, 0x90, 0, 3, 0, 0, 0] @ replicate 504 0"]
    C9_format_by_magic [of "[0xCF, 0xFA, 0xED, 0xFE, 7, 0, 0, 1] @ replicate 504 0"]
    C9_format_by_magic [of "[0x4D, 0x5A, 0x90, 0]"]
  by (simp add: HasPrefix_def MachO_def ELF_def PE_def)

text \<open>
  The claim as written, for every file, fails on a short file. The 64 bytes below are
  the header of an ELF file and nothing more. The buffer of 512 bytes, filled up with
  zeros, begins with 0x7f 'ELF' and with none of the other magic numbers, but the read
  reports \<^verbatim>\<open>io.EOF\<close> after 64 bytes, and the answer is that error and not ELF.
\<close>

theorem C9_short_file_counterexample:
  "HasPrefix (fst (ReadAt ([0x7F, 0x45, 0x4C, 0x46, 2, 1, 1, 0] @ replicate 56 0) 512 0))
     [0x7F, 0x45, 0x4C, 0x46]
   \<and> \<not> isMacho (fst (ReadAt ([0x7F, 0x45, 0x4C, 0x46, 2, 1, 1, 0] @ replicate 56 0) 512 0))
   \<and> \<not> isPE (fst (ReadAt ([0x7F, 0x45, 0x4C, 0x46, 2, 1, 1, 0] @ replicate 56 0) 512 0))
   \<and> findExecutableFormat ([0x7F, 0x45, 0x4C, 0x46, 2, 1, 1, 0] @ replicate 56 0)
       = Inl (ReadFirstSector EOF)
   \<and> findExecutableFormat ([0x7F, 0x45, 0x4C, 0x46, 2, 1, 1, 0] @ replicate 56 0) \<noteq> Inr ELF"
  by (simp add: findExecutableFormat_def ReadAt_def HasPrefix_def isMacho_def isPE_def
      classOrMachOFat_def BigEndian_Uint32_def LittleEndian_Uint32_def Magic32_def Magic64_def
      Let_def)
section \<open>Decoder collection\<close>

lemma decodeLoop_char:
  "decodeLoop ds r best =
     (case find (identifiesBoth r) ds of
        Some d \<Rightarrow> runDecoder d r
      | None \<Rightarrow>
          (let b = (if identifiedIDs r ds = [] then best else last (identifiedIDs r ds))
           in if b \<noteq> [] then (None, b, [], Some (VersionNotSupported b))
              else (None, [], [], Some FormatNotRecognized)))"
proof (induction ds arbitrary: best)
  case Nil
  then show ?case by (simp add: identifiedIDs_def)
next
  case (Cons d ds)
  show ?case
  proof (cases "identifiesBoth r d")
    case True
    then show ?thesis
      by (auto simp: identifiesBoth_def split: prod.splits)
  next
    case False
    then show ?thesis
      using Cons.IH
      by (auto simp: identifiesBoth_def identifiedIDs_def Let_def split: prod.splits option.splits)
  qed
qed

text \<open>
  Claim C5. For a non-nil reader, \<open>Decode\<close> runs the first decoder whose \<open>Identify\<close>
  returns a non-empty id and a non-empty version, and returns what that decoder returns.
  If no decoder returns both but some decoder returns a non-empty id, it returns no SBOM,
  that id (of the last such decoder) and the error that the format was found but the
  version is not supported. If no decoder returns any id, it returns the error that the
  format is not recognized.
\<close>

theorem C5_decode_selection:
  "DecoderCollection_Decode ds (Some r) =
     (case find (identifiesBoth r) ds of
        Some d \<Rightarrow> runDecoder d r
      | None \<Rightarrow>
          (if identifiedIDs r ds \<noteq> []
           then (None, last (identifiedIDs r ds), [],
                 Some (VersionNotSupported (last (identifiedIDs r ds))))
           else (None, [], [], Some FormatNotRecognized)))"
proof -
  have nonempty: "last (identifiedIDs r ds) \<noteq> []" if "identifiedIDs r ds \<noteq> []"
    using last_in_set[OF that] by (auto simp: identifiedIDs_def)
  show ?thesis
    unfolding DecoderCollection_Decode_def
    using nonempty
    by (simp add: decodeLoop_char[of ds r "[]"] Let_def split: option.splits)
qed


theorem C5_decode_selection_witness:
  "DecoderCollection_Decode
     [\<lparr>Decode = (\<lambda>r. (None, [], [], Some ''a'')), Identify = (\<lambda>r. ([], []))\<rparr>,
      \<lparr>Decode = (\<lambda>r. (None, [], [], Some ''b'')), Identify = (\<lambda>r. (''spdx-json'', []))\<rparr>,
      \<lparr>Decode = (\<lambda>r. (Some r, ''cyclonedx-json'', ''1.5'', None)),
       Identify = (\<lambda>r. (''cyclonedx-json'', ''1.5''))\<rparr>,
      \<lparr>Decode = (\<lambda>r. (Some r, ''syft-json'', ''16'', None)),
       Identify = (\<lambda>r. (''syft-json'', ''16''))\<rparr>]
     (Some ''bytes'')
   = (Some ''bytes'', ''cyclonedx-json'', ''1.5'', None)
   \<and> DecoderCollection_Decode
     [\<lparr>Decode = (\<lambda>r. (None, [], [], Some ''a'')), Identify = (\<lambda>r. (''spdx-json'', []))\<rparr>,
      \<lparr>Decode = (\<lambda>r. (None, [], [], Some ''b'')), Identify = (\<lambda>r. ([], ''2.3''))\<rparr>,
      \<lparr>Decode = (\<lambda>r. (Some r, [], [], None)), Identify = (\<lambda>r. (''cyclonedx-json'', []))\<rparr>]
     (Some ''bytes'')
   = (None, ''cyclonedx-json'', [], Some (VersionNotSupported ''cyclonedx-json''))
   \<and> DecoderCollection_Decode
     [\<lparr>Decode = (\<lambda>r. (Some r, [], [], None::string option)), Identify = (\<lambda>r. ([], ''2.3''))\<rparr>]
     (Some ''bytes'')
   = (None, [], [], Some FormatNotRecognized)"
  using C5_decode_selection
     [of "[\<lparr>Decode = (\<lambda>r. (None, [], [], Some ''a'')), Identify = (\<lambda>r. ([], []))\<rparr>,
      \<lparr>Decode = (\<lambda>r. (None, [], [], Some ''b'')), Identify = (\<lambda>r. (''spdx-json'', []))\<rparr>,
      \<lparr>Decode = (\<lambda>r. (Some r, ''cyclonedx-json'', ''1.5'', None)),
       Identify = (\<lambda>r. (''cyclonedx-json'', ''1.5''))\<rparr>,
      \<lparr>Decode = (\<lambda>r. (Some r, ''syft-json'', ''16'', None)),
       Identify = (\<lambda>r. (''syft-json'', ''16''))\<rparr>]" "''bytes''"]
    C5_decode_selection
     [of "[\<lparr>Decode = (\<lambda>r. (None, [], [], Some ''a'')), Identify = (\<lambda>r. (''spdx-json'', []))\<rparr>,
      \<lparr>Decode = (\<lambda>r. (None, [], [], Some ''b'')), Identify = (\<lambda>r. ([], ''2.3''))\<rparr>,
      \<lparr>Decode = (\<lambda>r. (Some r, [], [], None)), Identify = (\<lambda>r. (''cyclonedx-json'', []))\<rparr>]"
      "''bytes''"]
    C5_decode_selection
     [of "[\<lparr>Decode = (\<lambda>r. (Some r, [], [], None::string option)), Identify = (\<lambda>r. ([], ''2.3''))\<rparr>]"
      "''bytes''"]
  by (simp add: identifiesBoth_def identifiedIDs_def runDecoder_def)

section \<open>Location sets\<close>

lemma conflictingEntries_update:
  "k \<notin> fst ` set rest \<Longrightarrow> conflictingEntries (AList.update k v al) rest = conflictingEntries al rest"
  by (induction rest) (auto simp: update_conv' split: option.splits)

lemma mergeLoop_Some:
  "\<exists>al'. mergeLoop (Some al) errs kvs = Inr (Some al', errs @ conflictingEntries al kvs)
         \<and> map_of al' = map_of kvs ++ map_of al"
  if "distinct (map fst kvs)"
  using that
proof (induction kvs arbitrary: al errs)
  case Nil
  then show ?case by simp
next
  case (Cons kv kvs)
  obtain k v where kv: "kv = (k, v)" by (cases kv)
  from Cons.prems kv have dk: "k \<notin> fst ` set kvs" and d: "distinct (map fst kvs)" by auto
  show ?case
  proof (cases "map_of al k")
    case None
    from Cons.IH[OF d, of "AList.update k v al" errs]
    obtain al' where
      r: "mergeLoop (Some (AList.update k v al)) errs kvs
            = Inr (Some al', errs @ conflictingEntries (AList.update k v al) kvs)"
      and m: "map_of al' = map_of kvs ++ map_of (AList.update k v al)" by blast
    have step: "mergeLoop (Some al) errs (kv # kvs) = mergeLoop (Some (AList.update k v al)) errs kvs"
      using None kv by (simp add: lookupAnnotation_def)
    have ce: "conflictingEntries al (kv # kvs) = conflictingEntries (AList.update k v al) kvs"
      using None kv dk by (simp add: conflictingEntries_update)
    have e: "map_of kvs ++ map_of (AList.update k v al) = map_of (kv # kvs) ++ map_of al"
      using None dk kv
      by (auto simp: update_conv' map_add_def fun_eq_iff split: option.splits dest: map_of_SomeD)
    show ?thesis
      unfolding step ce using r trans[OF m e] by blast
  next
    case (Some otherV)
    show ?thesis
    proof (cases "v = otherV")
      case True
      from Cons.IH[OF d, of "AList.update k v al" errs]
      obtain al' where
        r: "mergeLoop (Some (AList.update k v al)) errs kvs
              = Inr (Some al', errs @ conflictingEntries (AList.update k v al) kvs)"
        and m: "map_of al' = map_of kvs ++ map_of (AList.update k v al)" by blast
      have step: "mergeLoop (Some al) errs (kv # kvs) = mergeLoop (Some (AList.update k v al)) errs kvs"
        using Some True kv by (simp add: lookupAnnotation_def)
      have ce: "conflictingEntries al (kv # kvs) = conflictingEntries (AList.update k v al) kvs"
        using Some True kv dk by (simp add: conflictingEntries_update)
      have e: "map_of kvs ++ map_of (AList.update k v al) = map_of (kv # kvs) ++ map_of al"
        using Some True kv
        by (auto simp: update_conv' map_add_def fun_eq_iff split: option.splits)
      show ?thesis
        unfolding step ce using r trans[OF m e] by blast
    next
      case False
      from Cons.IH[OF d, of al "errs @ [Conflicting k v otherV]"]
      obtain al' where
        r: "mergeLoop (Some al) (errs @ [Conflicting k v otherV]) kvs
              = Inr (Some al', (errs @ [Conflicting k v otherV]) @ conflictingEntries al kvs)"
        and m: "map_of al' = map_of kvs ++ map_of al" by blast
      have step: "mergeLoop (Some al) errs (kv # kvs) = mergeLoop (Some al) (errs @ [Conflicting k v otherV]) kvs"
        using Some False kv by (simp add: lookupAnnotation_def)
      have ce: "errs @ conflictingEntries al (kv # kvs)
                  = (errs @ [Conflicting k v otherV]) @ conflictingEntries al kvs"
        using Some False kv by simp
      have e: "map_of kvs ++ map_of al = map_of (kv # kvs) ++ map_of al"
        using Some kv
        by (auto simp: map_add_def fun_eq_iff split: option.splits)
      show ?thesis
        unfolding step ce using r trans[OF m e] by blast
    qed
  qed
qed

lemma mergeLoop_no_panic:
  "\<exists>al' errs'. mergeLoop (Some al) errs kvs = Inr (Some al', errs')"
proof (induction kvs arbitrary: al errs)
  case Nil
  then show ?case by simp
next
  case (Cons kv kvs)
  obtain k v where kv: "kv = (k, v)" by (cases kv)
  show ?case
    unfolding kv using Cons.IH
    by (cases "map_of al k") (simp_all add: lookupAnnotation_def)
qed

lemma merge_no_panic:
  assumes "Annotations m \<noteq> None"
  shows "\<exists>m' errs. merge m other = Inr (m', errs) \<and> Annotations m' \<noteq> None"
proof -
  from assms obtain al where al: "Annotations m = Some al" by auto
  obtain kvs where kvs: "kvs = (case Annotations other of None \<Rightarrow> [] | Some al \<Rightarrow> al)" by simp
  from mergeLoop_no_panic[of al "[]" kvs]
  obtain al' errs' where "mergeLoop (Some al) [] kvs = Inr (Some al', errs')" by blast
  then show ?thesis
    by (simp add: merge_def al kvs)
qed

lemma merge_Some:
  assumes "Annotations m = Some a1" and "Annotations other = Some a2" and "distinct (map fst a2)"
  shows "\<exists>al'. merge m other = Inr (m\<lparr>Annotations := Some al'\<rparr>, conflictingEntries a1 a2)
            \<and> map_of al' = map_of a2 ++ map_of a1"
proof -
  from mergeLoop_Some[OF assms(3), of a1 "[]"]
  obtain al' where "mergeLoop (Some a1) [] a2 = Inr (Some al', [] @ conflictingEntries a1 a2)"
    and "map_of al' = map_of a2 ++ map_of a1" by blast
  then show ?thesis
    by (intro exI[of _ al']) (simp add: merge_def assms(1,2))
qed

lemma addLoop_members:
  assumes "nonNilStored s" and "\<forall>l \<in> set ls. Annotations (LocationMetadata l) \<noteq> None"
  shows "\<exists>s' log'. addLoop s log ls = Inr (Some s', log') \<and> nonNilStored s'
            \<and> dom s' = dom s \<union> LocationData ` set ls"
  using assms
proof (induction ls arbitrary: s log)
  case Nil
  then show ?case by simp
next
  case (Cons l ls)
  from Cons.prems have rest: "\<forall>l \<in> set ls. Annotations (LocationMetadata l) \<noteq> None"
    and here: "Annotations (LocationMetadata l) \<noteq> None" by simp_all
  show ?case
  proof (cases "s (LocationData l)")
    case None
    have inv: "nonNilStored (s(LocationData l \<mapsto> LocationMetadata l))"
      using Cons.prems(1) here by (simp add: nonNilStored_def)
    from Cons.IH[OF inv rest, of log]
    obtain s' log' where r: "addLoop (s(LocationData l \<mapsto> LocationMetadata l)) log ls = Inr (Some s', log')"
      and nn': "nonNilStored s'"
      and dm: "dom s' = dom (s(LocationData l \<mapsto> LocationMetadata l)) \<union> LocationData ` set ls"
      by blast
    have step: "addLoop s log (l # ls) = addLoop (s(LocationData l \<mapsto> LocationMetadata l)) log ls"
      using None by simp
    from dm have "dom s' = dom s \<union> LocationData ` set (l # ls)" by auto
    with r nn' show ?thesis unfolding step by blast
  next
    case (Some m)
    with Cons.prems(1) have "Annotations m \<noteq> None" by (auto simp: nonNilStored_def)
    from merge_no_panic[OF this, of "LocationMetadata l"]
    obtain m' errs where mg: "merge m (LocationMetadata l) = Inr (m', errs)"
      and nn: "Annotations m' \<noteq> None" by blast
    have inv: "nonNilStored (s(LocationData l \<mapsto> m'))"
      using Cons.prems(1) nn by (simp add: nonNilStored_def)
    from Cons.IH[OF inv rest, of "if errs \<noteq> [] then log @ [errs] else log"]
    obtain s' log' where
      r: "addLoop (s(LocationData l \<mapsto> m')) (if errs \<noteq> [] then log @ [errs] else log) ls
            = Inr (Some s', log')"
      and nn': "nonNilStored s'"
      and dm: "dom s' = dom (s(LocationData l \<mapsto> m')) \<union> LocationData ` set ls"
      by blast
    have step: "addLoop s log (l # ls)
        = addLoop (s(LocationData l \<mapsto> m')) (if errs \<noteq> [] then log @ [errs] else log) ls"
      using Some mg by simp
    from dm have "dom s' = dom s \<union> LocationData ` set (l # ls)" by auto
    with r nn' show ?thesis unfolding step by blast
  qed
qed

lemma Add_members:
  assumes "\<forall>l \<in> set ls. Annotations (LocationMetadata l) \<noteq> None"
  shows "\<exists>s' log'. Add None ls = Inr (Some s', log') \<and> nonNilStored s'
           \<and> members (Some s') = LocationData ` set ls"
proof -
  have "nonNilStored (Map.empty :: 'a LocationData \<rightharpoonup> LocationMetadata)"
    by (simp add: nonNilStored_def)
  from addLoop_members[OF this assms, of "[]"] show ?thesis
    by (simp add: Add_def members_def)
qed

lemma NewLocationSet_pair: "NewLocationSet [l1, l2] = Add None [l1, l2]"
  by (simp add: NewLocationSet_def Add_def split: sum.splits option.splits)

text \<open>
  Claim C1, as amended. The key of a location set is the whole \<open>LocationData\<close>
  (coordinates, access path and file reference). For two locations with non-nil
  annotation maps, adding both to an empty set succeeds and the members are exactly their
  two \<open>LocationData\<close> values: one member when the \<open>LocationData\<close> are equal, two when
  they differ, whatever the annotations are.
\<close>

theorem C1_members_by_LocationData:
  assumes "Annotations (LocationMetadata l1) \<noteq> None"
      and "Annotations (LocationMetadata l2) \<noteq> None"
  shows "\<exists>s log. Add None [l1, l2] = Inr (s, log) \<and> NewLocationSet [l1, l2] = Inr (s, log)
           \<and> members s = {LocationData l1, LocationData l2}
           \<and> (LocationData l1 = LocationData l2 \<longrightarrow> card (members s) = 1)
           \<and> (LocationData l1 \<noteq> LocationData l2 \<longrightarrow> card (members s) = 2)"
proof -
  from assms have "\<forall>l \<in> set [l1, l2]. Annotations (LocationMetadata l) \<noteq> None" by simp
  from Add_members[OF this]
  obtain s' log' where r: "Add None [l1, l2] = Inr (Some s', log')"
    and m: "members (Some s') = LocationData ` set [l1, l2]" by blast
  from m have m': "members (Some s') = {LocationData l1, LocationData l2}" by simp
  have "LocationData l1 = LocationData l2 \<longrightarrow> card (members (Some s')) = 1"
    unfolding m' by simp
  moreover have "LocationData l1 \<noteq> LocationData l2 \<longrightarrow> card (members (Some s')) = 2"
    unfolding m' by simp
  ultimately show ?thesis
    using r m' NewLocationSet_pair[of l1 l2] by metis
qed

theorem C1_members_by_LocationData_witness:
  "NewLocationSet
     [WithAnnotation (NewVirtualLocationFromCoordinates
         \<lparr>RealPath = ''/bin/a'', FileSystemID = ''sha''\<rparr> ''/usr/bin/a'' ()) ''evidence'' ''primary'',
      WithAnnotation (NewVirtualLocationFromCoordinates
         \<lparr>RealPath = ''/bin/a'', FileSystemID = ''sha''\<rparr> ''/usr/bin/a'' ()) ''evidence'' ''supporting'']
   = Inr (Some [\<lparr>Coordinates = \<lparr>RealPath = ''/bin/a'', FileSystemID = ''sha''\<rparr>,
                  AccessPath = ''/usr/bin/a'', ref = ()\<rparr>
                \<mapsto> \<lparr>Annotations = Some [(''evidence'', ''primary'')]\<rparr>],
          [[Conflicting ''evidence'' ''supporting'' ''primary'']])
   \<and> card (members (Some [\<lparr>Coordinates = \<lparr>RealPath = ''/bin/a'', FileSystemID = ''sha''\<rparr>,
                  AccessPath = ''/usr/bin/a'', ref = ()\<rparr>
                \<mapsto> \<lparr>Annotations = Some [(''evidence'', ''primary'')]\<rparr>])) = 1"
  using C1_members_by_LocationData
    [of "WithAnnotation (NewVirtualLocationFromCoordinates
         \<lparr>RealPath = ''/bin/a'', FileSystemID = ''sha''\<rparr> ''/usr/bin/a'' ()) ''evidence'' ''primary''"
        "WithAnnotation (NewVirtualLocationFromCoordinates
         \<lparr>RealPath = ''/bin/a'', FileSystemID = ''sha''\<rparr> ''/usr/bin/a'' ()) ''evidence'' ''supporting''"]
  by (simp add: NewLocationSet_def Add_def merge_def lookupAnnotation_def members_def
      WithAnnotation_def NewVirtualLocationFromCoordinates_def)

text \<open>
  The claim as written fails: two locations with the same coordinates and different
  access paths are two members of the set.
\<close>

theorem C1_equal_coordinates_counterexample:
  "Coordinates (LocationData (NewVirtualLocationFromCoordinates
       \<lparr>RealPath = ''/etc/hosts'', FileSystemID = ''a''\<rparr> ''/var/etc/hosts'' ()))
   = Coordinates (LocationData (NewVirtualLocationFromCoordinates
       \<lparr>RealPath = ''/etc/hosts'', FileSystemID = ''a''\<rparr> ''/home/wagoodman/hosts'' ()))
   \<and> NewLocationSet
     [NewVirtualLocationFromCoordinates
        \<lparr>RealPath = ''/etc/hosts'', FileSystemID = ''a''\<rparr> ''/var/etc/hosts'' (),
      NewVirtualLocationFromCoordinates
        \<lparr>RealPath = ''/etc/hosts'', FileSystemID = ''a''\<rparr> ''/home/wagoodman/hosts'' ()]
   = Inr (Some [\<lparr>Coordinates = \<lparr>RealPath = ''/etc/hosts'', FileSystemID = ''a''\<rparr>,
                  AccessPath = ''/var/etc/hosts'', ref = ()\<rparr>
                  \<mapsto> \<lparr>Annotations = Some []\<rparr>,
                \<lparr>Coordinates = \<lparr>RealPath = ''/etc/hosts'', FileSystemID = ''a''\<rparr>,
                  AccessPath = ''/home/wagoodman/hosts'', ref = ()\<rparr>
                  \<mapsto> \<lparr>Annotations = Some []\<rparr>], [])
   \<and> card (members (Some [\<lparr>Coordinates = \<lparr>RealPath = ''/etc/hosts'', FileSystemID = ''a''\<rparr>,
                  AccessPath = ''/var/etc/hosts'', ref = ()\<rparr>
                  \<mapsto> \<lparr>Annotations = Some []\<rparr>,
                \<lparr>Coordinates = \<lparr>RealPath = ''/etc/hosts'', FileSystemID = ''a''\<rparr>,
                  AccessPath = ''/home/wagoodman/hosts'', ref = ()\<rparr>
                  \<mapsto> \<lparr>Annotations = Some []\<rparr>])) = 2"
  by (simp add: NewLocationSet_def Add_def members_def NewVirtualLocationFromCoordinates_def)

lemma conflictingEntries_member:
  "map_of a2 k = Some v2 \<Longrightarrow> map_of a1 k = Some v1 \<Longrightarrow> v1 \<noteq> v2
   \<Longrightarrow> Conflicting k v2 v1 \<in> set (conflictingEntries a1 a2)"
proof (induction a2)
  case Nil
  then show ?case by simp
next
  case (Cons kv a2)
  obtain k' v' where kv: "kv = (k', v')" by (cases kv)
  show ?case
  proof (cases "k' = k")
    case True
    with Cons.prems kv show ?thesis by auto
  next
    case False
    with Cons kv show ?thesis by (auto split: option.splits)
  qed
qed

lemma conflictingEntries_sound:
  "c \<in> set (conflictingEntries a1 a2)
   \<Longrightarrow> (conflictKey c, otherValue c) \<in> set a2 \<and> map_of a1 (conflictKey c) = Some (storedValue c)
       \<and> otherValue c \<noteq> storedValue c"
  by (induction a2) (auto split: option.splits if_splits)

text \<open>
  Claim C8, as amended. When two locations with equal \<open>LocationData\<close> (coordinates,
  access path and file reference) are added to a location set, the stored annotations
  are those of the first location extended by the keys only the second has: for a key
  with conflicting values the first-seen value is kept and the conflict is in the
  partial-merge message that is logged, and a key without conflict is merged into the
  stored metadata. A message is logged exactly when some key conflicts.
\<close>

theorem C8_first_seen_annotation_wins:
  assumes "LocationData l1 = LocationData l2"
      and "Annotations (LocationMetadata l1) = Some a1"
      and "Annotations (LocationMetadata l2) = Some a2"
      and "distinct (map fst a2)"
  shows "\<exists>stored.
           NewLocationSet [l1, l2]
             = Inr (Some [LocationData l1 \<mapsto> (LocationMetadata l1)\<lparr>Annotations := Some stored\<rparr>],
                    if conflictingEntries a1 a2 \<noteq> [] then [conflictingEntries a1 a2] else [])
         \<and> map_of stored = map_of a2 ++ map_of a1
         \<and> (\<forall>k v1 v2. map_of a1 k = Some v1 \<and> map_of a2 k = Some v2 \<and> v1 \<noteq> v2
               \<longrightarrow> map_of stored k = Some v1 \<and> Conflicting k v2 v1 \<in> set (conflictingEntries a1 a2))
         \<and> (\<forall>k v. map_of a1 k = None \<and> map_of a2 k = Some v \<longrightarrow> map_of stored k = Some v)
         \<and> (\<forall>k v. map_of a1 k = Some v \<longrightarrow> map_of stored k = Some v)"
proof -
  from merge_Some[OF assms(2,3,4)]
  obtain stored where
    mg: "merge (LocationMetadata l1) (LocationMetadata l2)
          = Inr ((LocationMetadata l1)\<lparr>Annotations := Some stored\<rparr>, conflictingEntries a1 a2)"
    and mp: "map_of stored = map_of a2 ++ map_of a1" by blast
  have run: "NewLocationSet [l1, l2]
             = Inr (Some [LocationData l1 \<mapsto> (LocationMetadata l1)\<lparr>Annotations := Some stored\<rparr>],
                    if conflictingEntries a1 a2 \<noteq> [] then [conflictingEntries a1 a2] else [])"
    unfolding NewLocationSet_pair
    using mg assms(1) by (simp add: Add_def)
  have c1: "map_of stored k = Some v1 \<and> Conflicting k v2 v1 \<in> set (conflictingEntries a1 a2)"
    if "map_of a1 k = Some v1 \<and> map_of a2 k = Some v2 \<and> v1 \<noteq> v2" for k v1 v2
    using that conflictingEntries_member[of a2 k v2 a1 v1] by (simp add: mp map_add_def)
  have c2: "map_of stored k = Some v" if "map_of a1 k = None \<and> map_of a2 k = Some v" for k v
    using that by (simp add: mp map_add_def)
  have c3: "map_of stored k = Some v" if "map_of a1 k = Some v" for k v
    using that by (simp add: mp map_add_def)
  from run mp c1 c2 c3 show ?thesis by blast
qed

theorem C8_first_seen_annotation_wins_witness:
  "NewLocationSet
     [\<lparr>LocationData = \<lparr>Coordinates = \<lparr>RealPath = ''/lib/x'', FileSystemID = ''''\<rparr>,
                       AccessPath = ''/lib/x'', ref = ()\<rparr>,
       LocationMetadata = \<lparr>Annotations = Some [(''evidence'', ''primary''), (''a'', ''1'')]\<rparr>\<rparr>,
      \<lparr>LocationData = \<lparr>Coordinates = \<lparr>RealPath = ''/lib/x'', FileSystemID = ''''\<rparr>,
                       AccessPath = ''/lib/x'', ref = ()\<rparr>,
       LocationMetadata = \<lparr>Annotations = Some [(''b'', ''2''), (''evidence'', ''supporting''), (''a'', ''1'')]\<rparr>\<rparr>]
   = Inr (Some [\<lparr>Coordinates = \<lparr>RealPath = ''/lib/x'', FileSystemID = ''''\<rparr>,
                  AccessPath = ''/lib/x'', ref = ()\<rparr>
                \<mapsto> \<lparr>Annotations = Some [(''evidence'', ''primary''), (''a'', ''1''), (''b'', ''2'')]\<rparr>],
          [[Conflicting ''evidence'' ''supporting'' ''primary'']])"
  using C8_first_seen_annotation_wins
    [of "\<lparr>LocationData = \<lparr>Coordinates = \<lparr>RealPath = ''/lib/x'', FileSystemID = ''''\<rparr>,
                       AccessPath = ''/lib/x'', ref = ()\<rparr>,
       LocationMetadata = \<lparr>Annotations = Some [(''evidence'', ''primary''), (''a'', ''1'')]\<rparr>\<rparr>"
      "\<lparr>LocationData = \<lparr>Coordinates = \<lparr>RealPath = ''/lib/x'', FileSystemID = ''''\<rparr>,
                       AccessPath = ''/lib/x'', ref = ()\<rparr>,
       LocationMetadata = \<lparr>Annotations = Some [(''b'', ''2''), (''evidence'', ''supporting''), (''a'', ''1'')]\<rparr>\<rparr>"
      "[(''evidence'', ''primary''), (''a'', ''1'')]"
      "[(''b'', ''2''), (''evidence'', ''supporting''), (''a'', ''1'')]"]
  by (simp add: NewLocationSet_def Add_def merge_def lookupAnnotation_def)

text \<open>
  The claim as written fails: with equal coordinates and different access paths the two
  locations are separate entries, the conflicting value of the second is kept under
  its own entry and no partial-merge message is logged.
\<close>

theorem C8_equal_coordinates_counterexample:
  "Coordinates (LocationData
     \<lparr>LocationData = \<lparr>Coordinates = \<lparr>RealPath = ''/lib/x'', FileSystemID = ''''\<rparr>,
                       AccessPath = ''/lib/x'', ref = ()\<rparr>,
       LocationMetadata = \<lparr>Annotations = Some [(''evidence'', ''primary'')]\<rparr>\<rparr>)
   = Coordinates (LocationData
     \<lparr>LocationData = \<lparr>Coordinates = \<lparr>RealPath = ''/lib/x'', FileSystemID = ''''\<rparr>,
                       AccessPath = ''/usr/lib/x'', ref = ()\<rparr>,
       LocationMetadata = \<lparr>Annotations = Some [(''evidence'', ''supporting'')]\<rparr>\<rparr>)
   \<and> NewLocationSet
     [\<lparr>LocationData = \<lparr>Coordinates = \<lparr>RealPath = ''/lib/x'', FileSystemID = ''''\<rparr>,
                       AccessPath = ''/lib/x'', ref = ()\<rparr>,
       LocationMetadata = \<lparr>Annotations = Some [(''evidence'', ''primary'')]\<rparr>\<rparr>,
      \<lparr>LocationData = \<lparr>Coordinates = \<lparr>RealPath = ''/lib/x'', FileSystemID = ''''\<rparr>,
                       AccessPath = ''/usr/lib/x'', ref = ()\<rparr>,
       LocationMetadata = \<lparr>Annotations = Some [(''evidence'', ''supporting'')]\<rparr>\<rparr>]
   = Inr (Some [\<lparr>Coordinates = \<lparr>RealPath = ''/lib/x'', FileSystemID = ''''\<rparr>,
                  AccessPath = ''/lib/x'', ref = ()\<rparr>
                  \<mapsto> \<lparr>Annotations = Some [(''evidence'', ''primary'')]\<rparr>,
                \<lparr>Coordinates = \<lparr>RealPath = ''/lib/x'', FileSystemID = ''''\<rparr>,
                  AccessPath = ''/usr/lib/x'', ref = ()\<rparr>
                  \<mapsto> \<lparr>Annotations = Some [(''evidence'', ''supporting'')]\<rparr>], [])"
  by (simp add: NewLocationSet_def Add_def)

section \<open>CPE ordering\<close>

lemma getRank_values:
  "getRank s = (if s = NVDDictionaryLookupSource then 1
                else if s = DeclaredSource then 2
                else if s = GeneratedSource then 3 else 4)"
  by (simp add: getRank_def sourceOrder_def NVDDictionaryLookupSource_def DeclaredSource_def
      GeneratedSource_def)

lemma weightedCount_values:
  "weightedCountForSpecifiedFields c =
     (if Part c \<noteq> [] then 2 else 0) + (if Vendor c \<noteq> [] then 3 else 0)
     + (if Product c \<noteq> [] then 4 else 0) + (if VersionAttr c \<noteq> [] then 1 else 0)
     + (if TargetSW c \<noteq> [] then 1 else 0)"
  by (simp add: weightedCountForSpecifiedFields_def checksForSpecifiedField_def)

lemma countFieldLength_values:
  "countFieldLength c =
     length (Part c) + length (Vendor c) + length (Product c) + length (VersionAttr c)
     + length (TargetSW c)"
  by (simp add: countFieldLength_def)

lemma Less_chain:
  "Less bind a b \<longleftrightarrow>
     getRank (Source a) < getRank (Source b)
     \<or> (getRank (Source a) = getRank (Source b)
        \<and> (weightedCountForSpecifiedFields (Attributes a) > weightedCountForSpecifiedFields (Attributes b)
           \<or> (weightedCountForSpecifiedFields (Attributes a) = weightedCountForSpecifiedFields (Attributes b)
              \<and> (countFieldLength (Attributes a) > countFieldLength (Attributes b)
                 \<or> (countFieldLength (Attributes a) = countFieldLength (Attributes b)
                    \<and> bind (Attributes a) < bind (Attributes b))))))"
  by (auto simp: Less_def isMoreSpecific_def Let_def)

lemma Less_irrefl: "\<not> Less bind a a"
  by (simp add: Less_chain)

lemma lex4_trans:
  fixes r1 r2 r3 s1 s2 s3 l1 l2 l3 :: nat and b1 b2 b3 :: string
  assumes "r1 < r2 \<or> (r1 = r2 \<and> (s1 > s2 \<or> (s1 = s2 \<and> (l1 > l2 \<or> (l1 = l2 \<and> b1 < b2)))))"
      and "r2 < r3 \<or> (r2 = r3 \<and> (s2 > s3 \<or> (s2 = s3 \<and> (l2 > l3 \<or> (l2 = l3 \<and> b2 < b3)))))"
  shows "r1 < r3 \<or> (r1 = r3 \<and> (s1 > s3 \<or> (s1 = s3 \<and> (l1 > l3 \<or> (l1 = l3 \<and> b1 < b3)))))"
  using assms by auto

lemma Less_trans: "Less bind a b \<Longrightarrow> Less bind b c \<Longrightarrow> Less bind a c"
  unfolding Less_chain by (rule lex4_trans)

lemma Less_asym: "Less bind a b \<Longrightarrow> \<not> Less bind b a"
  using Less_trans Less_irrefl by blast

lemma Less_tie:
  "\<not> Less bind a b \<and> \<not> Less bind b a \<longleftrightarrow>
     getRank (Source a) = getRank (Source b)
     \<and> weightedCountForSpecifiedFields (Attributes a) = weightedCountForSpecifiedFields (Attributes b)
     \<and> countFieldLength (Attributes a) = countFieldLength (Attributes b)
     \<and> bind (Attributes a) = bind (Attributes b)"
  unfolding Less_chain by auto

text \<open>
  Claim C3, as amended. \<open>Less\<close> compares first by source priority (rank 1 for
  nvd-dictionary-lookup, 2 for declared, 3 for generated, 4 for every other source),
  then by the weighted count of specified fields (Part 2, Vendor 3, Product 4, Version 1,
  TargetSW 1; the higher count first), then by the total field length (the longer
  first), and last by the text order of the bound format strings. It is a strict weak
  order: irreflexive and transitive, and two CPEs are tied (neither before the other)
  exactly when rank, count, length and bound string are all equal.
\<close>

theorem C3_Less_is_strict_weak_order:
  "(Less bind a b \<longleftrightarrow>
     getRank (Source a) < getRank (Source b)
     \<or> (getRank (Source a) = getRank (Source b)
        \<and> (weightedCountForSpecifiedFields (Attributes a) > weightedCountForSpecifiedFields (Attributes b)
           \<or> (weightedCountForSpecifiedFields (Attributes a) = weightedCountForSpecifiedFields (Attributes b)
              \<and> (countFieldLength (Attributes a) > countFieldLength (Attributes b)
                 \<or> (countFieldLength (Attributes a) = countFieldLength (Attributes b)
                    \<and> bind (Attributes a) < bind (Attributes b)))))))
   \<and> getRank s = (if s = NVDDictionaryLookupSource then 1
                  else if s = DeclaredSource then 2
                  else if s = GeneratedSource then 3 else 4)
   \<and> weightedCountForSpecifiedFields x =
       (if Part x \<noteq> [] then 2 else 0) + (if Vendor x \<noteq> [] then 3 else 0)
       + (if Product x \<noteq> [] then 4 else 0) + (if VersionAttr x \<noteq> [] then 1 else 0)
       + (if TargetSW x \<noteq> [] then 1 else 0)
   \<and> countFieldLength x =
       length (Part x) + length (Vendor x) + length (Product x) + length (VersionAttr x)
       + length (TargetSW x)
   \<and> \<not> Less bind a a
   \<and> (Less bind a b \<and> Less bind b c \<longrightarrow> Less bind a c)
   \<and> (\<not> Less bind a b \<and> \<not> Less bind b a \<longleftrightarrow>
        getRank (Source a) = getRank (Source b)
        \<and> weightedCountForSpecifiedFields (Attributes a) = weightedCountForSpecifiedFields (Attributes b)
        \<and> countFieldLength (Attributes a) = countFieldLength (Attributes b)
        \<and> bind (Attributes a) = bind (Attributes b))"
proof -
  have tr: "Less bind a b \<and> Less bind b c \<longrightarrow> Less bind a c"
    using Less_trans by blast
  show ?thesis
    using Less_chain[of bind a b] getRank_values[of s] weightedCount_values[of x]
      countFieldLength_values[of x] Less_irrefl[of bind a] tr Less_tie[of bind a b]
    by (intro conjI)
qed

theorem C3_Less_is_strict_weak_order_witness:
  "Less exampleBind
     \<lparr>Attributes = \<lparr>Part = ''a'', Vendor = ''acme'', Product = ''tool'', VersionAttr = ''1.0'', Update = [],
        Edition = [], SWEdition = [], TargetSW = [], TargetHW = [], Other = [], Language = []\<rparr>,
      Source = ''generated''\<rparr>
     \<lparr>Attributes = \<lparr>Part = ''a'', Vendor = [], Product = ''tool'', VersionAttr = ''1.0'', Update = [],
        Edition = [], SWEdition = [], TargetSW = [], TargetHW = [], Other = [], Language = []\<rparr>,
      Source = ''generated''\<rparr>
   \<and> Less exampleBind
     \<lparr>Attributes = \<lparr>Part = ''a'', Vendor = [], Product = ''tool'', VersionAttr = ''1.0'', Update = [],
        Edition = [], SWEdition = [], TargetSW = [], TargetHW = [], Other = [], Language = []\<rparr>,
      Source = ''generated''\<rparr>
     \<lparr>Attributes = \<lparr>Part = ''a'', Vendor = ''acme'', Product = ''tool'', VersionAttr = ''1.0'', Update = [],
        Edition = [], SWEdition = [], TargetSW = [], TargetHW = [], Other = [], Language = []\<rparr>,
      Source = ''somewhere-else''\<rparr>
   \<and> Less exampleBind
     \<lparr>Attributes = \<lparr>Part = ''a'', Vendor = ''acme'', Product = ''tool'', VersionAttr = ''1.0'', Update = [],
        Edition = [], SWEdition = [], TargetSW = [], TargetHW = [], Other = [], Language = []\<rparr>,
      Source = ''generated''\<rparr>
     \<lparr>Attributes = \<lparr>Part = ''a'', Vendor = ''acme'', Product = ''tool'', VersionAttr = ''1.0'', Update = [],
        Edition = [], SWEdition = [], TargetSW = [], TargetHW = [], Other = [], Language = []\<rparr>,
      Source = ''somewhere-else''\<rparr>"
  using C3_Less_is_strict_weak_order
    [of exampleBind
     "\<lparr>Attributes = \<lparr>Part = ''a'', Vendor = ''acme'', Product = ''tool'', VersionAttr = ''1.0'', Update = [],
        Edition = [], SWEdition = [], TargetSW = [], TargetHW = [], Other = [], Language = []\<rparr>,
      Source = ''generated''\<rparr>"
     "\<lparr>Attributes = \<lparr>Part = ''a'', Vendor = [], Product = ''tool'', VersionAttr = ''1.0'', Update = [],
        Edition = [], SWEdition = [], TargetSW = [], TargetHW = [], Other = [], Language = []\<rparr>,
      Source = ''generated''\<rparr>"
     "''generated''"
     "\<lparr>Part = ''a'', Vendor = [], Product = ''tool'', VersionAttr = ''1.0'', Update = [],
        Edition = [], SWEdition = [], TargetSW = [], TargetHW = [], Other = [], Language = []\<rparr>"
     "\<lparr>Attributes = \<lparr>Part = ''a'', Vendor = ''acme'', Product = ''tool'', VersionAttr = ''1.0'', Update = [],
        Edition = [], SWEdition = [], TargetSW = [], TargetHW = [], Other = [], Language = []\<rparr>,
      Source = ''somewhere-else''\<rparr>"]
  by (simp add: Less_def isMoreSpecific_def Let_def getRank_def sourceOrder_def
      NVDDictionaryLookupSource_def DeclaredSource_def GeneratedSource_def
      weightedCountForSpecifiedFields_def checksForSpecifiedField_def countFieldLength_def)

text \<open>
  The order is not total: two different CPEs whose sources are both unknown and whose
  attributes are the same are tied.
\<close>

theorem C3_not_total_counterexample:
  "\<lparr>Attributes = \<lparr>Part = ''a'', Vendor = ''acme'', Product = ''tool'', VersionAttr = ''1.0'', Update = [],
        Edition = [], SWEdition = [], TargetSW = [], TargetHW = [], Other = [], Language = []\<rparr>,
      Source = ''spdx-import''\<rparr>
   \<noteq> \<lparr>Attributes = \<lparr>Part = ''a'', Vendor = ''acme'', Product = ''tool'', VersionAttr = ''1.0'', Update = [],
        Edition = [], SWEdition = [], TargetSW = [], TargetHW = [], Other = [], Language = []\<rparr>,
      Source = ''cyclonedx-import''\<rparr>
   \<and> \<not> Less exampleBind
     \<lparr>Attributes = \<lparr>Part = ''a'', Vendor = ''acme'', Product = ''tool'', VersionAttr = ''1.0'', Update = [],
        Edition = [], SWEdition = [], TargetSW = [], TargetHW = [], Other = [], Language = []\<rparr>,
      Source = ''spdx-import''\<rparr>
     \<lparr>Attributes = \<lparr>Part = ''a'', Vendor = ''acme'', Product = ''tool'', VersionAttr = ''1.0'', Update = [],
        Edition = [], SWEdition = [], TargetSW = [], TargetHW = [], Other = [], Language = []\<rparr>,
      Source = ''cyclonedx-import''\<rparr>
   \<and> \<not> Less exampleBind
     \<lparr>Attributes = \<lparr>Part = ''a'', Vendor = ''acme'', Product = ''tool'', VersionAttr = ''1.0'', Update = [],
        Edition = [], SWEdition = [], TargetSW = [], TargetHW = [], Other = [], Language = []\<rparr>,
      Source = ''cyclonedx-import''\<rparr>
     \<lparr>Attributes = \<lparr>Part = ''a'', Vendor = ''acme'', Product = ''tool'', VersionAttr = ''1.0'', Update = [],
        Edition = [], SWEdition = [], TargetSW = [], TargetHW = [], Other = [], Language = []\<rparr>,
      Source = ''spdx-import''\<rparr>"
  by (simp add: Less_def isMoreSpecific_def Let_def getRank_def sourceOrder_def
      NVDDictionaryLookupSource_def DeclaredSource_def GeneratedSource_def)

section \<open>CPE merge\<close>






















section \<open>Extraction stays inside the target directory?\<close>

lemma safeJoin_error_iff:
  "(\<exists>e. (safeJoin prefix dest :: 'e unzip_error + string) = Inl e)
     \<longleftrightarrow> \<not> HasPrefix (Clean (Join (prefix # dest))) (Clean prefix)"
  by (simp add: safeJoin_def Let_def)

text \<open>
  Claim C7 at a failing input. The target directory is \<^verbatim>\<open>/tmp/out\<close> and the archive
  has one entry named \<^verbatim>\<open>../outside/evil.sh\<close>. The cleaned joined path
  \<^verbatim>\<open>/tmp/outside/evil.sh\<close> begins with the characters of \<^verbatim>\<open>/tmp/out\<close>, so \<open>safeJoin\<close>
  reports no error and \<open>UnzipToDir\<close> writes to a path that is not inside the target
  directory.
\<close>

theorem C7_sibling_directory_escapes:
  "(safeJoin ''/tmp/out'' [''../outside/evil.sh''] :: unit unzip_error + string)
     = Inr ''/tmp/outside/evil.sh''
   \<and> UnzipToDir (\<lambda>name path. None :: unit option) (Inr [''../outside/evil.sh'']) ''/tmp/out''
     = ([''/tmp/outside/evil.sh''], None)
   \<and> \<not> insideRoot ''/tmp/out'' ''/tmp/outside/evil.sh''
   \<and> (safeJoin ''/tmp/out'' [''../../etc/passwd''] :: unit unzip_error + string)
     = Inl (errZipSlipDetected ''/tmp/out'' [''../../etc/passwd''])
   \<and> (safeJoin ''/tmp/out'' [''a/b.txt''] :: unit unzip_error + string) = Inr ''/tmp/out/a/b.txt''
   \<and> insideRoot ''/tmp/out'' ''/tmp/out/a/b.txt''"
  by (simp add: safeJoin_def UnzipToDir_def Clean_def splitSep_def HasPrefix_def Let_def
      insideRoot_def pathElements_def)

section \<open>Encoder lookup\<close>




























section \<open>Start of a prefixed ZIP archive\<close>









































end
